theory Spec2Isabelle
  imports Complex_Main
begin

section \<open>The galaxy simulation of gravity.cu\<close>

text \<open>
  The simulation keeps an array of stars in memory shared by the host and the device.
  Each frame the host launches the kernel \<^verbatim>\<open>updateStars\<close> once: thread \<open>i\<close>
  accumulates the pull of every other star on star \<open>i\<close>, adds it to the velocity of
  star \<open>i\<close> and advances the position of star \<open>i\<close>, all of it in the one shared
  array.

  The program computes in single-precision floating point. Here every \<^verbatim>\<open>float\<close>
  is a real number: rounding, overflow and NaN are outside the model, and the literals
  \<^verbatim>\<open>0.31f\<close>, \<^verbatim>\<open>6.67408e-11\<close>, \<^verbatim>\<open>1e-5f\<close> stand for the
  decimal fractions they abbreviate. A division by zero is not a real number. The program
  can divide by zero in two places. When the stars are created it divides by the sampled
  radius, which can be zero: that outcome is written out in the model. The kernel divides
  by the mass of star \<open>i\<close>: the statements below about the accelerations are made for
  stars of a mass that is not zero, as every star the program creates has.
\<close>

subsection \<open>Constants (lines 7 to 11)\<close>

definition SCREEN_WIDTH :: int where
  "SCREEN_WIDTH = 900"

definition SCREEN_HEIGHT :: int where
  "SCREEN_HEIGHT = 900"

text \<open>The global time step; the kernel receives it as its parameter \<open>dt\<close>.\<close>

definition global_dt :: real where
  "global_dt = 31 / 100"

definition G :: real where
  "G = 667408 / 10 ^ 16"

definition CENTRAL_MASS :: real where
  "CENTRAL_MASS = 2644 * 10 ^ 10"

subsection \<open>The star record (lines 13 to 18)\<close>

record Star =
  x :: real
  y :: real
  mass :: real
  vx :: real
  vy :: real
  brightness :: real
  opacity :: real

subsection \<open>The kernel (lines 26 to 54)\<close>

definition calculateEscapeVelocity :: "Star \<Rightarrow> real \<Rightarrow> real" where
  "calculateEscapeVelocity star distance = sqrt (2 * G * mass star / distance)"

definition MAX_FORCE :: real where
  "MAX_FORCE = 1 / 100000"

definition MIN_BRIGHTNESS :: real where
  "MIN_BRIGHTNESS = 1 / 10"

text \<open>
  The body of the inner loop for one partner \<open>j\<close> of star \<open>i\<close> (lines 37 to 48),
  statement by statement. Every assignment to a field of \<^verbatim>\<open>stars[i]\<close> is an update
  of the array, and the statements after it read the updated array.
\<close>

definition pair_update :: "Star list \<Rightarrow> real \<Rightarrow> nat \<Rightarrow> nat \<Rightarrow> Star list" where
  "pair_update stars dt i j =
    (let dx = x (stars ! j) - x (stars ! i);
         dy = y (stars ! j) - y (stars ! i);
         dist = sqrt (dx * dx + dy * dy) + 1 / 100000;
         escapeVelocity = calculateEscapeVelocity (stars ! j) dist;
         distanceSquared = dx * dx + dy * dy + 1 / 100000;
         force = G * mass (stars ! j) * mass (stars ! i) / distanceSquared;
         stars = stars[i := (stars ! i)\<lparr>brightness := brightness (stars ! i)
                   + MAX_FORCE / real_of_int ((SCREEN_WIDTH div 2) * (SCREEN_HEIGHT div 2))\<rparr>];
         stars = stars[i := (stars ! i)\<lparr>brightness :=
                   min (max (brightness (stars ! i)) MIN_BRIGHTNESS) 1\<rparr>];
         ax = force * (dx / sqrt distanceSquared) / mass (stars ! i);
         ay = force * (dy / sqrt distanceSquared) / mass (stars ! i);
         stars = stars[i := (stars ! i)\<lparr>vx := vx (stars ! i) + ax * dt\<rparr>];
         stars = stars[i := (stars ! i)\<lparr>vy := vy (stars ! i) + ay * dt\<rparr>]
     in stars)"

text \<open>The loop over \<open>j\<close> from 0 to \<open>numStars - 1\<close>, skipping \<open>j = i\<close> (lines 35 to 50).\<close>

definition star_loop :: "Star list \<Rightarrow> nat \<Rightarrow> real \<Rightarrow> nat \<Rightarrow> Star list" where
  "star_loop stars numStars dt i =
     foldl (\<lambda>stars j. if i \<noteq> j then pair_update stars dt i j else stars) stars [0..<numStars]"

text \<open>
  One thread of the kernel, run from its first statement to its last on the shared array:
  \<open>i\<close> is the thread's global index \<^verbatim>\<open>blockIdx.x * blockDim.x + threadIdx.x\<close>.
  A thread beyond the last star does nothing.
\<close>

definition updateStars :: "Star list \<Rightarrow> nat \<Rightarrow> real \<Rightarrow> nat \<Rightarrow> Star list" where
  "updateStars stars numStars dt i =
     (if i < numStars then
        (let stars = star_loop stars numStars dt i;
             stars = stars[i := (stars ! i)\<lparr>x := x (stars ! i) + vx (stars ! i) * dt / 2\<rparr>];
             stars = stars[i := (stars ! i)\<lparr>y := y (stars ! i) + vy (stars ! i) * dt / 2\<rparr>]
         in stars)
      else stars)"

subsection \<open>The launch (lines 86, 87 and 134)\<close>

definition numThreads :: nat where
  "numThreads = 512"

definition numBlocks :: "nat \<Rightarrow> nat" where
  "numBlocks numStars = (numStars + numThreads - 1) div numThreads"

text \<open>
  The host launches \<open>numBlocks * numThreads\<close> threads on the array, with \<open>numStars\<close>
  the size of the array, and waits for all of them. The program fixes no order among
  the threads. The model runs them one after another, each to completion, in an order
  \<open>ord\<close> given from outside: these are executions the program admits, not all of them.
  An order of a launch names every thread of the grid once.
\<close>

definition launch :: "nat list \<Rightarrow> Star list \<Rightarrow> real \<Rightarrow> Star list" where
  "launch ord stars dt = foldl (\<lambda>s i. updateStars s (length stars) dt i) stars ord"

definition is_launch_order :: "nat list \<Rightarrow> nat \<Rightarrow> bool" where
  "is_launch_order ord numStars \<longleftrightarrow>
     distinct ord \<and> set ord = set [0..<numBlocks numStars * numThreads]"

text \<open>
  The main loop launches the kernel once per frame with the global time step; \<open>ords\<close>
  lists the order of each frame's launch.
\<close>

definition run_ticks :: "nat list list \<Rightarrow> Star list \<Rightarrow> Star list" where
  "run_ticks ords stars = foldl (\<lambda>s ord. launch ord s global_dt) stars ords"

subsection \<open>Creating the stars (lines 61 to 84)\<close>

text \<open>
  Line 80 divides by the sampled radius: a radius of zero makes the quotient, its root
  and with it both components of the velocity an infinity or a NaN. A slot of the array
  under construction is therefore either a star whose fields are all finite, or the mark
  \<open>NonFinite\<close> for a star whose velocity is not a finite number.
\<close>

datatype slot = Finite Star | NonFinite

text \<open>An assignment to a field of the star in a slot.\<close>

definition assign :: "(Star \<Rightarrow> Star) \<Rightarrow> slot \<Rightarrow> slot" where
  "assign f sl = (case sl of Finite s \<Rightarrow> Finite (f s) | NonFinite \<Rightarrow> NonFinite)"

text \<open>The pan offsets of line 72, still zero while the stars are created.\<close>

definition offsetX :: int where
  "offsetX = 0"

definition offsetY :: int where
  "offsetY = 0"

text \<open>
  The body of the loop (lines 74 to 83) on the slot of star \<open>i\<close>. \<^verbatim>\<open>rand()\<close> is a
  sequence \<open>draws\<close> of numbers between 0 and \<open>RAND_MAX\<close>, a constant of the platform
  taken as a parameter; \<open>k\<close> counts the calls made so far. The body calls it four times:
  for the radius, the angle, the opacity and the mass.
\<close>

definition create_slot :: "nat \<Rightarrow> (nat \<Rightarrow> nat) \<Rightarrow> nat \<Rightarrow> slot \<Rightarrow> slot" where
  "create_slot RAND_MAX draws k sl =
    (let radius = real (draws k) / real RAND_MAX * real_of_int (SCREEN_WIDTH div 2) / 2;
         angle = real (draws (k + 1)) / real RAND_MAX * 2 * pi;
         sl = assign (\<lambda>s. s\<lparr>opacity := real (draws (k + 2)) / real RAND_MAX\<rparr>) sl;
         sl = assign (\<lambda>s. s\<lparr>x := real_of_int (SCREEN_WIDTH div 2) + radius * cos angle
                                   - real_of_int offsetX\<rparr>) sl;
         sl = assign (\<lambda>s. s\<lparr>y := real_of_int (SCREEN_HEIGHT div 2) + radius * sin angle
                                   - real_of_int offsetY\<rparr>) sl;
         sl = (if radius = 0 then NonFinite
               else (let velocity = sqrt (G * CENTRAL_MASS / radius);
                         sl = assign (\<lambda>s. s\<lparr>vx := - velocity * sin angle\<rparr>) sl;
                         sl = assign (\<lambda>s. s\<lparr>vy := velocity * cos angle\<rparr>) sl
                     in sl));
         sl = assign (\<lambda>s. s\<lparr>mass := 1 + real (draws (k + 3))
                                   / (real RAND_MAX / (10 ^ 7 - 10 ^ 6))\<rparr>) sl
     in sl)"

text \<open>One iteration: the array and the call counter before and after.\<close>

definition create_star ::
  "nat \<Rightarrow> (nat \<Rightarrow> nat) \<Rightarrow> slot list \<times> nat \<Rightarrow> nat \<Rightarrow> slot list \<times> nat" where
  "create_star RAND_MAX draws st i =
     (case st of (stars, k) \<Rightarrow> (stars[i := create_slot RAND_MAX draws k (stars ! i)], k + 4))"

text \<open>
  Lines 66 to 84. \<open>raw\<close> is the memory as \<^verbatim>\<open>cudaMallocManaged\<close> hands it over, of
  \<open>numStars\<close> stars: the program never assigns the brightness of any star, nor the
  opacity of star 0, so these keep the values found there.
\<close>

definition create_stars ::
  "nat \<Rightarrow> (nat \<Rightarrow> nat) \<Rightarrow> Star list \<Rightarrow> nat \<Rightarrow> slot list \<times> nat" where
  "create_stars RAND_MAX draws raw numStars =
    (let stars = map Finite raw;
         stars = stars[0 := assign (\<lambda>s. s\<lparr>x := real_of_int (SCREEN_WIDTH div 2)\<rparr>) (stars ! 0)];
         stars = stars[0 := assign (\<lambda>s. s\<lparr>y := real_of_int (SCREEN_HEIGHT div 2)\<rparr>) (stars ! 0)];
         stars = stars[0 := assign (\<lambda>s. s\<lparr>vx := 0\<rparr>) (stars ! 0)];
         stars = stars[0 := assign (\<lambda>s. s\<lparr>vy := 0\<rparr>) (stars ! 0)];
         stars = stars[0 := assign (\<lambda>s. s\<lparr>mass := CENTRAL_MASS\<rparr>) (stars ! 0)]
     in foldl (create_star RAND_MAX draws) (stars, 0) [1..<numStars])"

text \<open>
  The local variables \<^verbatim>\<open>radius\<close> and \<^verbatim>\<open>angle\<close> of iteration \<open>i\<close>: the loop has made
  \<open>4 * (i - 1)\<close> calls of \<^verbatim>\<open>rand()\<close> when the iteration begins.
\<close>

definition sampled_radius :: "nat \<Rightarrow> (nat \<Rightarrow> nat) \<Rightarrow> nat \<Rightarrow> real" where
  "sampled_radius RAND_MAX draws i =
     real (draws (4 * (i - 1))) / real RAND_MAX * real_of_int (SCREEN_WIDTH div 2) / 2"

definition sampled_angle :: "nat \<Rightarrow> (nat \<Rightarrow> nat) \<Rightarrow> nat \<Rightarrow> real" where
  "sampled_angle RAND_MAX draws i = real (draws (4 * (i - 1) + 1)) / real RAND_MAX * 2 * pi"

subsection \<open>Values computed on the way\<close>

text \<open>
  Names for the values the kernel computes on the way, each read off the statements of
  \<open>pair_update\<close>: the local variables \<^verbatim>\<open>ax\<close> and \<^verbatim>\<open>ay\<close> of thread \<open>i\<close> at
  partner \<open>j\<close>, and the two brightness statements taken together.
\<close>

definition accel_x :: "Star list \<Rightarrow> nat \<Rightarrow> nat \<Rightarrow> real" where
  "accel_x stars i j =
    (let dx = x (stars ! j) - x (stars ! i);
         dy = y (stars ! j) - y (stars ! i);
         distanceSquared = dx * dx + dy * dy + 1 / 100000;
         force = G * mass (stars ! j) * mass (stars ! i) / distanceSquared
     in force * (dx / sqrt distanceSquared) / mass (stars ! i))"

definition accel_y :: "Star list \<Rightarrow> nat \<Rightarrow> nat \<Rightarrow> real" where
  "accel_y stars i j =
    (let dx = x (stars ! j) - x (stars ! i);
         dy = y (stars ! j) - y (stars ! i);
         distanceSquared = dx * dx + dy * dy + 1 / 100000;
         force = G * mass (stars ! j) * mass (stars ! i) / distanceSquared
     in force * (dy / sqrt distanceSquared) / mass (stars ! i))"

definition brighten :: "real \<Rightarrow> real" where
  "brighten b =
     min (max (b + MAX_FORCE / real_of_int ((SCREEN_WIDTH div 2) * (SCREEN_HEIGHT div 2)))
              MIN_BRIGHTNESS) 1"

text \<open>The partners of thread \<open>i\<close> among \<open>js\<close>, in the order the loop meets them.\<close>

definition partners :: "nat \<Rightarrow> nat list \<Rightarrow> nat list" where
  "partners i js = filter (\<lambda>j. j \<noteq> i) js"

subsection \<open>Evaluations the program is compared with\<close>

text \<open>
  The double-buffered tick of the specification: every unit of work reads the array as
  it was when the tick began and writes its own slot of the output.
\<close>

definition tick_snapshot :: "Star list \<Rightarrow> real \<Rightarrow> Star list" where
  "tick_snapshot stars dt =
     map (\<lambda>i. updateStars stars (length stars) dt i ! i) [0..<length stars]"

text \<open>
  The same double-buffered tick with its units of work run one after another in the order
  \<open>ord\<close>: each reads the array \<open>stars\<close> of the tick's beginning and writes its own slot
  of the output buffer.
\<close>

definition launch_double_buffered :: "nat list \<Rightarrow> Star list \<Rightarrow> real \<Rightarrow> Star list" where
  "launch_double_buffered ord stars dt =
     foldl (\<lambda>out i. if i < length stars
                      then out[i := updateStars stars (length stars) dt i ! i] else out)
       stars ord"

text \<open>
  The acceleration as the specification words it, to be compared with \<open>accel_x\<close>: the
  force over the softened square of the distance, divided by the mass of star \<open>i\<close>,
  times the offset over \<open>d' = sqrt (d_raw\<^sup>2) + eps'\<close>, the epsilon added after the root.
\<close>

definition spec_accel_x :: "real \<Rightarrow> Star list \<Rightarrow> nat \<Rightarrow> nat \<Rightarrow> real" where
  "spec_accel_x eps' stars i j =
    (let dx = x (stars ! j) - x (stars ! i);
         dy = y (stars ! j) - y (stars ! i);
         d2 = dx * dx + dy * dy + 1 / 100000;
         F = G * mass (stars ! j) * mass (stars ! i) / d2;
         d' = sqrt (dx * dx + dy * dy) + eps'
     in (F / mass (stars ! i)) * (dx / d'))"

text \<open>The inner loop's body, the loop and the thread with the escape velocity left out.\<close>

definition pair_update_no_escape :: "Star list \<Rightarrow> real \<Rightarrow> nat \<Rightarrow> nat \<Rightarrow> Star list" where
  "pair_update_no_escape stars dt i j =
    (let dx = x (stars ! j) - x (stars ! i);
         dy = y (stars ! j) - y (stars ! i);
         distanceSquared = dx * dx + dy * dy + 1 / 100000;
         force = G * mass (stars ! j) * mass (stars ! i) / distanceSquared;
         stars = stars[i := (stars ! i)\<lparr>brightness := brightness (stars ! i)
                   + MAX_FORCE / real_of_int ((SCREEN_WIDTH div 2) * (SCREEN_HEIGHT div 2))\<rparr>];
         stars = stars[i := (stars ! i)\<lparr>brightness :=
                   min (max (brightness (stars ! i)) MIN_BRIGHTNESS) 1\<rparr>];
         ax = force * (dx / sqrt distanceSquared) / mass (stars ! i);
         ay = force * (dy / sqrt distanceSquared) / mass (stars ! i);
         stars = stars[i := (stars ! i)\<lparr>vx := vx (stars ! i) + ax * dt\<rparr>];
         stars = stars[i := (stars ! i)\<lparr>vy := vy (stars ! i) + ay * dt\<rparr>]
     in stars)"

definition updateStars_no_escape :: "Star list \<Rightarrow> nat \<Rightarrow> real \<Rightarrow> nat \<Rightarrow> Star list" where
  "updateStars_no_escape stars numStars dt i =
     (if i < numStars then
        (let stars = foldl (\<lambda>stars j. if i \<noteq> j then pair_update_no_escape stars dt i j
                                         else stars) stars [0..<numStars];
             stars = stars[i := (stars ! i)\<lparr>x := x (stars ! i) + vx (stars ! i) * dt / 2\<rparr>];
             stars = stars[i := (stars ! i)\<lparr>y := y (stars ! i) + vy (stars ! i) * dt / 2\<rparr>]
         in stars)
      else stars)"

definition launch_no_escape :: "nat list \<Rightarrow> Star list \<Rightarrow> real \<Rightarrow> Star list" where
  "launch_no_escape ord stars dt =
     foldl (\<lambda>s i. updateStars_no_escape s (length stars) dt i) stars ord"

subsection \<open>Stores used as examples\<close>

text \<open>
  Two stars at the same place, the first one drifting to the right. Both carry a
  brightness outside the range of the clamp.
\<close>

definition drifting_pair :: "Star list" where
  "drifting_pair =
     [\<lparr>x = 0, y = 0, mass = 1, vx = 1, vy = 0, brightness = 5, opacity = 1\<rparr>,
      \<lparr>x = 0, y = 0, mass = 1, vx = 0, vy = 0, brightness = - 3, opacity = 0\<rparr>]"

text \<open>Two stars at rest on the horizontal axis, one and two units apart.\<close>

definition unit_gap :: "Star list" where
  "unit_gap =
     [\<lparr>x = 0, y = 0, mass = 1, vx = 0, vy = 0, brightness = 1, opacity = 1\<rparr>,
      \<lparr>x = 1, y = 0, mass = 1, vx = 0, vy = 0, brightness = 1, opacity = 1\<rparr>]"

definition double_gap :: "Star list" where
  "double_gap =
     [\<lparr>x = 0, y = 0, mass = 1, vx = 0, vy = 0, brightness = 1, opacity = 1\<rparr>,
      \<lparr>x = 2, y = 0, mass = 1, vx = 0, vy = 0, brightness = 1, opacity = 1\<rparr>]"

text \<open>
  Two orders for the threads of a launch on \<open>numStars\<close> stars: by rising index, and by
  falling index.
\<close>

definition identity_order :: "nat \<Rightarrow> nat list" where
  "identity_order numStars = [0..<numBlocks numStars * numThreads]"

definition reverse_order :: "nat \<Rightarrow> nat list" where
  "reverse_order numStars = rev [0..<numBlocks numStars * numThreads]"

text \<open>
  Two stars of equal mass at rest, mirrored about the origin on the horizontal axis.
\<close>

definition heavy_pair :: "Star list" where
  "heavy_pair =
     [\<lparr>x = - 1, y = 0, mass = 10 ^ 13, vx = 0, vy = 0, brightness = 1, opacity = 1\<rparr>,
      \<lparr>x = 1, y = 0, mass = 10 ^ 13, vx = 0, vy = 0, brightness = 1, opacity = 1\<rparr>]"

text \<open>The value of \<^verbatim>\<open>RAND_MAX\<close> in the GNU C library.\<close>

definition glibc_RAND_MAX :: nat where
  "glibc_RAND_MAX = 2147483647"

section \<open>What one thread leaves in its slot\<close>

lemma length_pair_update [simp]: "length (pair_update stars dt i j) = length stars"
  by (simp add: pair_update_def Let_def)

lemma pair_update_slot:
  assumes "i < length stars"
  shows "pair_update stars dt i j =
           stars[i := (stars ! i)\<lparr>brightness := brighten (brightness (stars ! i)),
                                  vx := vx (stars ! i) + accel_x stars i j * dt,
                                  vy := vy (stars ! i) + accel_y stars i j * dt\<rparr>]"
  using assms
  unfolding pair_update_def accel_x_def accel_y_def brighten_def Let_def
  by simp

lemma pair_update_beyond: "length stars \<le> i \<Longrightarrow> pair_update stars dt i j = stars"
  by (simp add: pair_update_def Let_def list_update_beyond)

text \<open>
  The accelerations read the position and the mass of the two stars and nothing else, so
  they are the same on two arrays that agree there.
\<close>

lemma accel_cong:
  assumes "x (s' ! i) = x (s ! i)" "y (s' ! i) = y (s ! i)" "mass (s' ! i) = mass (s ! i)"
    and "x (s' ! j) = x (s ! j)" "y (s' ! j) = y (s ! j)" "mass (s' ! j) = mass (s ! j)"
  shows "accel_x s' i j = accel_x s i j" and "accel_y s' i j = accel_y s i j"
  using assms by (simp_all add: accel_x_def accel_y_def)

text \<open>
  The loop of thread \<open>i\<close> over any list of partners: the velocity of star \<open>i\<close> gains the
  sum of the accelerations times \<open>dt\<close>, each acceleration computed from the array as the
  thread found it, the brightness is stepped once per partner, and nothing else changes.
\<close>

lemma loop_slot:
  assumes "i < length stars"
  shows "foldl (\<lambda>stars j. if i \<noteq> j then pair_update stars dt i j else stars) stars js =
           stars[i := (stars ! i)\<lparr>
             brightness := (brighten ^^ length (partners i js)) (brightness (stars ! i)),
             vx := vx (stars ! i) + (\<Sum>j\<leftarrow>partners i js. accel_x stars i j * dt),
             vy := vy (stars ! i) + (\<Sum>j\<leftarrow>partners i js. accel_y stars i j * dt)\<rparr>]"
proof (induction js rule: rev_induct)
  case Nil
  then show ?case using assms by (simp add: partners_def)
next
  case (snoc j js)
  let ?S = "foldl (\<lambda>stars j. if i \<noteq> j then pair_update stars dt i j else stars) stars js"
  show ?case
  proof (cases "i = j")
    case True
    then show ?thesis using snoc by (simp add: partners_def)
  next
    case False
    have len: "i < length ?S" using assms by (simp add: snoc)
    have ax: "accel_x ?S i j = accel_x stars i j" and ay: "accel_y ?S i j = accel_y stars i j"
      using assms False by (auto intro!: accel_cong simp: snoc)
    show ?thesis
      using False assms
      by (simp add: pair_update_slot [OF len] ax ay) (simp add: snoc partners_def algebra_simps)
  qed
qed

lemma star_loop_slot:
  assumes "i < length stars"
  shows "star_loop stars numStars dt i =
           stars[i := (stars ! i)\<lparr>
             brightness :=
               (brighten ^^ length (partners i [0..<numStars])) (brightness (stars ! i)),
             vx := vx (stars ! i) + (\<Sum>j\<leftarrow>partners i [0..<numStars]. accel_x stars i j * dt),
             vy := vy (stars ! i) + (\<Sum>j\<leftarrow>partners i [0..<numStars]. accel_y stars i j * dt)\<rparr>]"
  unfolding star_loop_def by (rule loop_slot [OF assms])

lemma star_loop_beyond: "length stars \<le> i \<Longrightarrow> star_loop stars numStars dt i = stars"
proof -
  assume b: "length stars \<le> i"
  have "foldl (\<lambda>stars j. if i \<noteq> j then pair_update stars dt i j else stars) stars js = stars"
    for js
    using b by (induction js) (auto simp add: pair_update_beyond)
  then show ?thesis by (simp add: star_loop_def)
qed

text \<open>The whole thread, for a thread that has a star.\<close>

lemma updateStars_slot:
  assumes "i < length stars" "i < numStars"
  shows "updateStars stars numStars dt i =
     stars[i := (stars ! i)\<lparr>
       brightness :=
         (brighten ^^ length (partners i [0..<numStars])) (brightness (stars ! i)),
       vx := vx (stars ! i) + (\<Sum>j\<leftarrow>partners i [0..<numStars]. accel_x stars i j * dt),
       vy := vy (stars ! i) + (\<Sum>j\<leftarrow>partners i [0..<numStars]. accel_y stars i j * dt),
       x := x (stars ! i)
            + (vx (stars ! i) + (\<Sum>j\<leftarrow>partners i [0..<numStars]. accel_x stars i j * dt)) * dt / 2,
       y := y (stars ! i)
            + (vy (stars ! i) + (\<Sum>j\<leftarrow>partners i [0..<numStars]. accel_y stars i j * dt)) * dt / 2\<rparr>]"
  using assms by (simp add: updateStars_def Let_def star_loop_slot)

lemma updateStars_beyond: "length stars \<le> i \<Longrightarrow> updateStars stars numStars dt i = stars"
  by (simp add: updateStars_def Let_def star_loop_beyond list_update_beyond)

lemma updateStars_idle: "numStars \<le> i \<Longrightarrow> updateStars stars numStars dt i = stars"
  by (simp add: updateStars_def)

lemma length_updateStars [simp]: "length (updateStars stars numStars dt i) = length stars"
  by (cases "i < length stars"; cases "i < numStars")
     (simp_all add: updateStars_slot updateStars_beyond updateStars_idle)

lemma length_launch_aux:
  "length (foldl (\<lambda>s i. updateStars s n dt i) stars ord) = length stars"
  by (induction ord arbitrary: stars) simp_all

lemma length_launch [simp]: "length (launch ord stars dt) = length stars"
  by (simp add: launch_def length_launch_aux)

text \<open>A thread writes only its own slot.\<close>

lemma updateStars_other: "k \<noteq> i \<Longrightarrow> updateStars stars numStars dt i ! k = stars ! k"
  by (cases "i < length stars"; cases "i < numStars")
     (simp_all add: updateStars_slot updateStars_beyond updateStars_idle)

text \<open>The mass and the opacity are assigned by no statement of the thread.\<close>

lemma updateStars_mass: "map mass (updateStars stars numStars dt i) = map mass stars"
  by (cases "i < length stars"; cases "i < numStars")
     (simp_all add: updateStars_slot updateStars_beyond updateStars_idle map_update
        list_update_same_conv)

lemma updateStars_opacity: "map opacity (updateStars stars numStars dt i) = map opacity stars"
  by (cases "i < length stars"; cases "i < numStars")
     (simp_all add: updateStars_slot updateStars_beyond updateStars_idle map_update
        list_update_same_conv)

lemma launch_mass: "map mass (launch ord stars dt) = map mass stars"
proof -
  have "map mass (foldl (\<lambda>s i. updateStars s n dt i) stars ord) = map mass stars" for n
    by (induction ord arbitrary: stars) (simp_all add: updateStars_mass)
  then show ?thesis by (simp add: launch_def)
qed

lemma launch_opacity: "map opacity (launch ord stars dt) = map opacity stars"
proof -
  have "map opacity (foldl (\<lambda>s i. updateStars s n dt i) stars ord) = map opacity stars" for n
    by (induction ord arbitrary: stars) (simp_all add: updateStars_opacity)
  then show ?thesis by (simp add: launch_def)
qed

section \<open>Launches\<close>

lemma brighten_range: "1 / 10 \<le> brighten b \<and> brighten b \<le> 1"
  by (simp add: brighten_def MIN_BRIGHTNESS_def min_def max_def)

lemma brighten_funpow_range:
  assumes "0 < k"
  shows "1 / 10 \<le> (brighten ^^ k) b \<and> (brighten ^^ k) b \<le> 1"
proof (cases k)
  case 0
  then show ?thesis using assms by simp
next
  case (Suc n)
  then show ?thesis using brighten_range [of "(brighten ^^ n) b"] by simp
qed

lemma length_partners: "i < n \<Longrightarrow> length (partners i [0..<n]) = n - 1"
proof -
  assume "i < n"
  then have "[0..<n] = [0..<i] @ i # [Suc i..<n]"
    by (metis upt_conv_Cons le0 upt_add_eq_append le_add_diff_inverse less_imp_le_nat)
  then have "partners i [0..<n] = [0..<i] @ [Suc i..<n]"
    by (auto simp add: partners_def filter_id_conv filter_empty_conv)
  then show ?thesis using \<open>i < n\<close> by simp
qed

lemma launch_Nil [simp]: "launch [] stars dt = stars"
  by (simp add: launch_def)

lemma launch_Cons:
  "launch (i # ord) stars dt = launch ord (updateStars stars (length stars) dt i) dt"
  by (simp add: launch_def)

lemma launch_append: "launch (a @ b) stars dt = launch b (launch a stars dt) dt"
  by (simp add: launch_def length_launch_aux)

lemma launch_other: "k \<notin> set ord \<Longrightarrow> launch ord stars dt ! k = stars ! k"
  by (induction ord arbitrary: stars) (simp_all add: launch_Cons updateStars_other)

lemma launch_idle: "\<forall>t \<in> set ord. length stars \<le> t \<Longrightarrow> launch ord stars dt = stars"
  by (induction ord arbitrary: stars) (simp_all add: launch_Cons updateStars_idle)

lemma launch_at:
  assumes "i \<notin> set post"
  shows "launch (pre @ i # post) stars dt ! i
           = updateStars (launch pre stars dt) (length stars) dt i ! i"
  using assms by (simp add: launch_append launch_Cons launch_other)

lemma grid_covers: "numStars \<le> numBlocks numStars * numThreads"
  by (simp add: numBlocks_def numThreads_def)

lemma launch_order_split:
  assumes "is_launch_order ord n" "i < n"
  obtains pre post where "ord = pre @ i # post" "i \<notin> set pre" "i \<notin> set post"
proof -
  have "i \<in> set ord"
    using assms grid_covers [of n] by (simp add: is_launch_order_def)
  then obtain pre post where sp: "ord = pre @ i # post"
    by (meson split_list)
  moreover have "distinct ord" using assms by (simp add: is_launch_order_def)
  ultimately have "i \<notin> set pre" "i \<notin> set post" by auto
  with sp show ?thesis by (rule that)
qed

lemma updateStars_brightness:
  assumes "i < length stars" "2 \<le> length stars"
  shows "1 / 10 \<le> brightness (updateStars stars (length stars) dt i ! i)
       \<and> brightness (updateStars stars (length stars) dt i ! i) \<le> 1"
  using assms brighten_funpow_range [of "length stars - 1" "brightness (stars ! i)"]
  by (simp add: updateStars_slot length_partners)

lemma sum_partners:
  "(\<Sum>j\<leftarrow>partners i [0..<n]. f j) = (\<Sum>j\<in>{0..<n} - {i}. f j)"
proof -
  have "distinct (partners i [0..<n])" by (simp add: partners_def)
  moreover have "set (partners i [0..<n]) = {0..<n} - {i}" by (auto simp add: partners_def)
  ultimately show ?thesis by (metis sum_list_distinct_conv_sum_set)
qed

lemma sqrt_eq_square: "0 \<le> a \<Longrightarrow> sqrt a = b \<Longrightarrow> b * b = a"
  by auto

subsection \<open>Launches on two stars\<close>

lemma launch_identity_order:
  "launch (identity_order (length stars)) stars dt = launch [0..<length stars] stars dt"
proof -
  let ?n = "length stars" and ?g = "numBlocks (length stars) * numThreads"
  have "[0..<?g] = [0..<?n] @ [?n..<?g]"
    using grid_covers [of ?n] upt_add_eq_append [of 0 ?n "?g - ?n"] by simp
  then have "launch [0..<?g] stars dt = launch [?n..<?g] (launch [0..<?n] stars dt) dt"
    by (simp only: launch_append)
  also have "\<dots> = launch [0..<?n] stars dt"
    by (rule launch_idle) simp
  finally show ?thesis by (simp only: identity_order_def)
qed

lemma launch_reverse_order:
  "launch (reverse_order (length stars)) stars dt = launch (rev [0..<length stars]) stars dt"
proof -
  let ?n = "length stars" and ?g = "numBlocks (length stars) * numThreads"
  have "[0..<?g] = [0..<?n] @ [?n..<?g]"
    using grid_covers [of ?n] upt_add_eq_append [of 0 ?n "?g - ?n"] by simp
  then have "rev [0..<?g] = rev [?n..<?g] @ rev [0..<?n]"
    by (simp only: rev_append)
  then have "launch (rev [0..<?g]) stars dt
               = launch (rev [0..<?n]) (launch (rev [?n..<?g]) stars dt) dt"
    by (simp only: launch_append)
  also have "launch (rev [?n..<?g]) stars dt = stars"
    by (rule launch_idle) simp
  finally show ?thesis by (simp only: reverse_order_def)
qed

lemma launch_two:
  assumes "length stars = 2"
  shows "launch (identity_order 2) stars dt
           = updateStars (updateStars stars 2 dt 0) 2 dt (Suc 0)"
proof -
  have "[0..<2] = [0, Suc 0]" by (simp add: upt_conv_Cons)
  then show ?thesis
    using launch_identity_order [of stars dt] by (simp add: assms launch_Cons)
qed

lemma launch_two_swapped:
  assumes "length stars = 2"
  shows "launch (reverse_order 2) stars dt
           = updateStars (updateStars stars 2 dt (Suc 0)) 2 dt 0"
proof -
  have "rev [0..<2] = [Suc 0, 0]" by (simp add: upt_conv_Cons)
  then show ?thesis
    using launch_reverse_order [of stars dt] by (simp add: assms launch_Cons)
qed

lemma launch_order_identity: "is_launch_order (identity_order n) n"
  by (simp add: is_launch_order_def identity_order_def)

lemma launch_order_reverse: "is_launch_order (reverse_order n) n"
  by (simp add: is_launch_order_def reverse_order_def)

lemma softened_square_pos: "0 < dx * dx + dy * dy + 1 / (100000::real)"
proof -
  have "0 \<le> dx * dx" "0 \<le> dy * dy" by simp_all
  then show ?thesis by linarith
qed

lemma accel_x_pos:
  assumes "0 < mass (s ! i)" "0 < mass (s ! j)" "x (s ! i) < x (s ! j)"
  shows "0 < accel_x s i j"
proof -
  let ?dx = "x (s ! j) - x (s ! i)" and ?dy = "y (s ! j) - y (s ! i)"
  have d: "0 < ?dx * ?dx + ?dy * ?dy + 1 / 100000" by (rule softened_square_pos)
  then have r: "0 < sqrt (?dx * ?dx + ?dy * ?dy + 1 / 100000)" by simp
  have G: "0 < G" by (simp add: G_def)
  have dx: "0 < ?dx" using assms by simp
  show ?thesis
    unfolding accel_x_def Let_def
    by (intro divide_pos_pos mult_pos_pos G assms(1,2) d r dx)
qed

lemma accel_y_same_height: "y (s ! j) = y (s ! i) \<Longrightarrow> accel_y s i j = 0"
  by (simp add: accel_y_def Let_def)

lemma partners_two: "partners 0 [0..<2] = [Suc 0]" "partners (Suc 0) [0..<2] = [0]"
  by (simp_all add: partners_def upt_conv_Cons)

text \<open>The two threads of an array of two stars.\<close>

lemma two_stars_thread0:
  assumes "length s = 2"
  shows "vx (updateStars s 2 dt 0 ! 0) = vx (s ! 0) + accel_x s 0 (Suc 0) * dt"
    and "vy (updateStars s 2 dt 0 ! 0) = vy (s ! 0) + accel_y s 0 (Suc 0) * dt"
    and "x (updateStars s 2 dt 0 ! 0)
           = x (s ! 0) + (vx (s ! 0) + accel_x s 0 (Suc 0) * dt) * dt / 2"
    and "y (updateStars s 2 dt 0 ! 0)
           = y (s ! 0) + (vy (s ! 0) + accel_y s 0 (Suc 0) * dt) * dt / 2"
    and "mass (updateStars s 2 dt 0 ! 0) = mass (s ! 0)"
    and "updateStars s 2 dt 0 ! Suc 0 = s ! Suc 0"
  using assms by (simp_all add: updateStars_slot partners_two updateStars_other)

lemma two_stars_thread1:
  assumes "length s = 2"
  shows "vx (updateStars s 2 dt (Suc 0) ! Suc 0) = vx (s ! Suc 0) + accel_x s (Suc 0) 0 * dt"
    and "vy (updateStars s 2 dt (Suc 0) ! Suc 0) = vy (s ! Suc 0) + accel_y s (Suc 0) 0 * dt"
    and "updateStars s 2 dt (Suc 0) ! 0 = s ! 0"
  using assms by (simp_all add: updateStars_slot partners_two updateStars_other)

lemma launch_slot_fields:
  assumes "is_launch_order ord (length stars)" "i < length stars"
  shows "brightness (launch ord stars dt ! i)
           = (brighten ^^ (length stars - 1)) (brightness (stars ! i))"
    and "mass (launch ord stars dt ! i) = mass (stars ! i)"
    and "opacity (launch ord stars dt ! i) = opacity (stars ! i)"
proof -
  obtain pre post where sp: "ord = pre @ i # post" "i \<notin> set pre" "i \<notin> set post"
    using launch_order_split [OF assms] by blast
  have at: "launch ord stars dt ! i = updateStars (launch pre stars dt) (length stars) dt i ! i"
    using sp by (simp add: launch_at)
  have same: "launch pre stars dt ! i = stars ! i"
    using sp by (simp add: launch_other)
  show "brightness (launch ord stars dt ! i)
           = (brighten ^^ (length stars - 1)) (brightness (stars ! i))"
    using assms(2) by (simp add: at updateStars_slot length_partners same)
  show "mass (launch ord stars dt ! i) = mass (stars ! i)"
    using assms(2) by (simp add: at updateStars_slot same)
  show "opacity (launch ord stars dt ! i) = opacity (stars ! i)"
    using assms(2) by (simp add: at updateStars_slot same)
qed

lemma snapshot_nth:
  "i < length stars \<Longrightarrow> tick_snapshot stars dt ! i = updateStars stars (length stars) dt i ! i"
  by (simp add: tick_snapshot_def)

lemma snapshot_slot_fields:
  assumes "i < length stars"
  shows "brightness (tick_snapshot stars dt ! i)
           = (brighten ^^ (length stars - 1)) (brightness (stars ! i))"
    and "mass (tick_snapshot stars dt ! i) = mass (stars ! i)"
    and "opacity (tick_snapshot stars dt ! i) = opacity (stars ! i)"
  using assms by (simp_all add: snapshot_nth updateStars_slot length_partners)

lemma double_buffered_aux:
  assumes "length out = n"
  shows "length (foldl (\<lambda>out i. if i < n then out[i := f i] else out) out ord) = n
       \<and> (\<forall>k < n. foldl (\<lambda>out i. if i < n then out[i := f i] else out) out ord ! k
                    = (if k \<in> set ord then f k else out ! k))"
  using assms
proof (induction ord arbitrary: out)
  case Nil
  then show ?case by simp
next
  case (Cons a ord)
  let ?o = "if a < n then out[a := f a] else out"
  have len: "length ?o = n" using Cons.prems by simp
  show ?case
    using Cons.IH [OF len] Cons.prems by (auto simp add: nth_list_update)
qed

lemma double_buffered_is_snapshot:
  assumes "is_launch_order ord (length stars)"
  shows "launch_double_buffered ord stars dt = tick_snapshot stars dt"
proof (rule nth_equalityI)
  let ?f = "\<lambda>i. updateStars stars (length stars) dt i ! i"
  note aux = double_buffered_aux [of stars "length stars" ?f ord, OF refl]
  show "length (launch_double_buffered ord stars dt) = length (tick_snapshot stars dt)"
    using aux by (simp add: launch_double_buffered_def tick_snapshot_def)
  fix k assume "k < length (launch_double_buffered ord stars dt)"
  then have k: "k < length stars"
    using aux by (simp add: launch_double_buffered_def)
  then have "k \<in> set ord"
    using assms grid_covers [of "length stars"] by (simp add: is_launch_order_def)
  then show "launch_double_buffered ord stars dt ! k = tick_snapshot stars dt ! k"
    using aux k by (simp add: launch_double_buffered_def snapshot_nth)
qed

lemma sqrt_bound: "sqrt (400001 / 100000) \<le> 3"
  by (rule real_le_lsqrt) simp_all

lemma heavy_accel: "100 \<le> accel_x heavy_pair 0 (Suc 0)"
proof -
  define S :: real where "S = sqrt (400001 / 100000)"
  have r: "0 < S" and b: "S \<le> 3" using sqrt_bound by (simp_all add: S_def)
  have "accel_x heavy_pair 0 (Suc 0) = (133481600 / 400001) / S"
    by (simp add: accel_x_def heavy_pair_def Let_def G_def S_def)
  moreover have "100 \<le> (133481600 / 400001) / S"
    using r b by (simp add: pos_le_divide_eq)
  ultimately show ?thesis by simp
qed

lemma heavy_in_place:
  "0 < vx (launch (identity_order 2) heavy_pair global_dt ! 0)"
  "0 < vx (launch (identity_order 2) heavy_pair global_dt ! Suc 0)"
proof -
  let ?S = "updateStars heavy_pair 2 global_dt 0"
  let ?R = "updateStars ?S 2 global_dt (Suc 0)"
  have len: "length heavy_pair = 2" by (simp add: heavy_pair_def)
  have lenS: "length ?S = 2" by (simp add: len)
  have v0: "vx (?S ! 0) = accel_x heavy_pair 0 (Suc 0) * global_dt"
    by (simp add: two_stars_thread0 [OF len]) (simp add: heavy_pair_def)
  have x0: "x (?S ! 0) = - 1 + accel_x heavy_pair 0 (Suc 0) * global_dt * global_dt / 2"
    by (simp add: two_stars_thread0 [OF len]) (simp add: heavy_pair_def)
  have S1: "?S ! Suc 0 = heavy_pair ! Suc 0" by (simp add: updateStars_other)
  have m0: "mass (?S ! 0) = 10 ^ 13"
    by (simp add: two_stars_thread0 [OF len]) (simp add: heavy_pair_def)
  have past: "1 < x (?S ! 0)"
    using heavy_accel unfolding x0 by (simp add: global_dt_def)
  have "0 < accel_x ?S (Suc 0) 0"
  proof (rule accel_x_pos)
    show "0 < mass (?S ! Suc 0)" by (simp add: S1) (simp add: heavy_pair_def)
    show "0 < mass (?S ! 0)" by (simp add: m0)
    show "x (?S ! Suc 0) < x (?S ! 0)"
      using past by (simp add: S1) (simp add: heavy_pair_def)
  qed
  moreover have "vx (?R ! Suc 0) = vx (?S ! Suc 0) + accel_x ?S (Suc 0) 0 * global_dt"
    by (rule two_stars_thread1) (simp add: len)
  moreover have "vx (?S ! Suc 0) = 0" by (simp add: S1) (simp add: heavy_pair_def)
  moreover have dtpos: "0 < global_dt" by (simp add: global_dt_def)
  ultimately have "0 < vx (?R ! Suc 0)" by simp
  then show "0 < vx (launch (identity_order 2) heavy_pair global_dt ! Suc 0)"
    by (simp only: launch_two [OF len])
  have "?R ! 0 = ?S ! 0" by (simp add: updateStars_other)
  moreover have "0 < vx (?S ! 0)" using heavy_accel dtpos by (simp add: v0)
  ultimately have "0 < vx (?R ! 0)" by simp
  then show "0 < vx (launch (identity_order 2) heavy_pair global_dt ! 0)"
    by (simp only: launch_two [OF len])
qed

lemma heavy_thread1: "vx (updateStars heavy_pair 2 global_dt (Suc 0) ! Suc 0) < 0"
proof -
  have len: "length heavy_pair = 2" by (simp add: heavy_pair_def)
  have "accel_x heavy_pair (Suc 0) 0 = - accel_x heavy_pair 0 (Suc 0)"
    by (simp add: accel_x_def Let_def heavy_pair_def)
  then have "accel_x heavy_pair (Suc 0) 0 < 0"
    using heavy_accel by simp
  moreover have "vx (heavy_pair ! Suc 0) = 0" by (simp add: heavy_pair_def)
  moreover have "0 < global_dt" by (simp add: global_dt_def)
  ultimately show ?thesis
    by (simp add: two_stars_thread1 [OF len] mult_neg_pos)
qed

lemma heavy_snapshot: "vx (tick_snapshot heavy_pair global_dt ! Suc 0) < 0"
proof -
  have len: "length heavy_pair = 2" by (simp add: heavy_pair_def)
  have "tick_snapshot heavy_pair global_dt ! Suc 0
          = updateStars heavy_pair 2 global_dt (Suc 0) ! Suc 0"
    by (simp add: tick_snapshot_def len)
  then show ?thesis by (simp only: heavy_thread1)
qed

lemma heavy_swapped: "vx (launch (reverse_order 2) heavy_pair global_dt ! Suc 0) < 0"
proof -
  have len: "length heavy_pair = 2" by (simp add: heavy_pair_def)
  have "updateStars (updateStars heavy_pair 2 global_dt (Suc 0)) 2 global_dt 0 ! Suc 0
          = updateStars heavy_pair 2 global_dt (Suc 0) ! Suc 0"
    by (simp add: updateStars_other)
  then show ?thesis by (simp only: launch_two_swapped [OF len] heavy_thread1)
qed

lemma identity_order_two:
  "identity_order 2 = [0] @ Suc 0 # [2..<numBlocks 2 * numThreads]"
proof -
  let ?g = "numBlocks 2 * numThreads"
  have g: "2 \<le> ?g" by (rule grid_covers)
  have a: "[0..<?g] = 0 # [Suc 0..<?g]"
    by (rule upt_conv_Cons) (use g in linarith)
  have b: "[Suc 0..<?g] = Suc 0 # [Suc (Suc 0)..<?g]"
    by (rule upt_conv_Cons) (use g in linarith)
  have c: "Suc (Suc 0) = 2" by simp
  show ?thesis
    unfolding identity_order_def by (simp only: a b c append.simps)
qed

section \<open>Creating the stars\<close>

lemma create_loop:
  assumes "m \<le> length stars" "1 \<le> m"
  shows "foldl (create_star R draws) (stars, 0) [1..<m] =
           (map (\<lambda>i. if 1 \<le> i \<and> i < m then create_slot R draws (4 * (i - 1)) (stars ! i)
                       else stars ! i) [0..<length stars],
            4 * (m - 1))"
  using assms
proof (induction m)
  case 0
  then show ?case by simp
next
  case (Suc m)
  show ?case
  proof (cases "m = 0")
    case True
    have "stars = map (\<lambda>i. if 1 \<le> i \<and> i < Suc 0
                              then create_slot R draws (4 * (i - 1)) (stars ! i)
                              else stars ! i) [0..<length stars]"
      by (intro nth_equalityI) auto
    then show ?thesis using True by simp
  next
    case False
    then have m: "1 \<le> m" "m \<le> length stars" "m < length stars" using Suc.prems by simp_all
    have up: "[1..<Suc m] = [1..<m] @ [m]" using m by simp
    let ?S = "map (\<lambda>i. if 1 \<le> i \<and> i < m then create_slot R draws (4 * (i - 1)) (stars ! i)
                       else stars ! i) [0..<length stars]"
    have "foldl (create_star R draws) (stars, 0) [1..<Suc m]
            = create_star R draws (?S, 4 * (m - 1)) m"
      using Suc.IH [OF m(2) m(1)] by (simp only: up foldl_append foldl.simps)
    also have "\<dots> = (?S[m := create_slot R draws (4 * (m - 1)) (stars ! m)], 4 * (m - 1) + 4)"
      using m by (simp add: create_star_def)
    also have "?S[m := create_slot R draws (4 * (m - 1)) (stars ! m)]
                 = map (\<lambda>i. if 1 \<le> i \<and> i < Suc m
                              then create_slot R draws (4 * (i - 1)) (stars ! i)
                              else stars ! i) [0..<length stars]"
      using m by (intro nth_equalityI) (auto simp add: nth_list_update less_Suc_eq)
    also have "4 * (m - 1) + 4 = 4 * (Suc m - 1)" using m by simp
    finally show ?thesis .
  qed
qed

lemma create_stars_unfold:
  "create_stars R draws raw numStars =
     foldl (create_star R draws)
       ((map Finite raw)[0 := Finite ((raw ! 0)\<lparr>x := real_of_int (SCREEN_WIDTH div 2),
                                y := real_of_int (SCREEN_HEIGHT div 2),
                                vx := 0, vy := 0, mass := CENTRAL_MASS\<rparr>)], 0)
       [1..<numStars]"
  by (cases raw) (simp_all add: create_stars_def Let_def assign_def)

lemma create_stars_draws:
  assumes "1 \<le> numStars" "numStars \<le> length raw"
  shows "snd (create_stars R draws raw numStars) = 4 * (numStars - 1)"
  unfolding create_stars_unfold
  by (subst create_loop) (use assms in simp_all)

lemma create_stars_slot:
  assumes "1 \<le> i" "i < numStars" "numStars \<le> length raw"
  shows "fst (create_stars R draws raw numStars) ! i
           = create_slot R draws (4 * (i - 1)) (Finite (raw ! i))"
  unfolding create_stars_unfold
  by (subst create_loop) (use assms in simp_all)

lemma create_stars_centre:
  assumes "1 \<le> numStars" "numStars \<le> length raw"
  shows "fst (create_stars R draws raw numStars) ! 0
           = Finite ((raw ! 0)\<lparr>x := real_of_int (SCREEN_WIDTH div 2),
                                y := real_of_int (SCREEN_HEIGHT div 2),
                                vx := 0, vy := 0, mass := CENTRAL_MASS\<rparr>)"
proof -
  have "0 < length raw" using assms by linarith
  then show ?thesis
    unfolding create_stars_unfold
    by (subst create_loop) (use assms in simp_all)
qed

lemma create_slot_zero_radius:
  assumes "draws k = 0"
  shows "create_slot R draws k sl = NonFinite"
  using assms by (simp add: create_slot_def Let_def assign_def)

lemma create_slot_finite:
  assumes "real (draws k) / real R * real_of_int (SCREEN_WIDTH div 2) / 2 \<noteq> 0"
  shows "create_slot R draws k (Finite s) =
     Finite (s\<lparr>opacity := real (draws (k + 2)) / real R,
        x := real_of_int (SCREEN_WIDTH div 2)
             + real (draws k) / real R * real_of_int (SCREEN_WIDTH div 2) / 2
               * cos (real (draws (k + 1)) / real R * 2 * pi) - real_of_int offsetX,
        y := real_of_int (SCREEN_HEIGHT div 2)
             + real (draws k) / real R * real_of_int (SCREEN_WIDTH div 2) / 2
               * sin (real (draws (k + 1)) / real R * 2 * pi) - real_of_int offsetY,
        vx := - sqrt (G * CENTRAL_MASS
                       / (real (draws k) / real R * real_of_int (SCREEN_WIDTH div 2) / 2))
              * sin (real (draws (k + 1)) / real R * 2 * pi),
        vy := sqrt (G * CENTRAL_MASS
                     / (real (draws k) / real R * real_of_int (SCREEN_WIDTH div 2) / 2))
              * cos (real (draws (k + 1)) / real R * 2 * pi),
        mass := 1 + real (draws (k + 3)) / (real R / (10 ^ 7 - 10 ^ 6))\<rparr>)"
  using assms unfolding create_slot_def Let_def assign_def by simp

lemma tangential_magnitude:
  assumes "0 \<le> v"
  shows "sqrt ((- v * sin a)\<^sup>2 + (v * cos a)\<^sup>2) = v"
proof -
  have "(- v * sin a)\<^sup>2 + (v * cos a)\<^sup>2 = v\<^sup>2 * (sin a)\<^sup>2 + v\<^sup>2 * (cos a)\<^sup>2"
    by (simp add: power_mult_distrib)
  also have "\<dots> = v\<^sup>2 * ((sin a)\<^sup>2 + (cos a)\<^sup>2)"
    by (simp only: distrib_left)
  also have "\<dots> = v\<^sup>2" by simp
  finally show ?thesis using assms by simp
qed

lemma orbit_speed_nonneg: "0 \<le> G * CENTRAL_MASS / sampled_radius R draws i"
  by (simp add: sampled_radius_def G_def CENTRAL_MASS_def SCREEN_WIDTH_def)

lemma tangential_perpendicular:
  "(c + r * cos a - c) * (- v * sin a) + (d + r * sin a - d) * (v * cos a) = (0::real)"
  by (simp add: algebra_simps)

lemma created_star:
  assumes "1 \<le> i" "i < numStars" "length raw = numStars"
    and "sampled_radius R draws i \<noteq> 0"
  shows "\<exists>s. fst (create_stars R draws raw numStars) ! i = Finite s
       \<and> x s = real_of_int (SCREEN_WIDTH div 2)
               + sampled_radius R draws i * cos (sampled_angle R draws i)
       \<and> y s = real_of_int (SCREEN_HEIGHT div 2)
               + sampled_radius R draws i * sin (sampled_angle R draws i)
       \<and> vx s = - sqrt (G * CENTRAL_MASS / sampled_radius R draws i)
                  * sin (sampled_angle R draws i)
       \<and> vy s = sqrt (G * CENTRAL_MASS / sampled_radius R draws i)
                  * cos (sampled_angle R draws i)"
proof -
  have "fst (create_stars R draws raw numStars) ! i
          = create_slot R draws (4 * (i - 1)) (Finite (raw ! i))"
    using assms(1-3) by (simp add: create_stars_slot)
  then show ?thesis
    using assms(4)
    by (simp add: create_slot_finite sampled_radius_def sampled_angle_def offsetX_def
        offsetY_def)
qed

section \<open>The claims\<close>

text \<open>
  C6. Running any number of ticks, whatever the order of the threads in each launch,
  leaves the mass and the opacity of every star as they were: the kernel assigns
  neither field. The array keeps its length too.
\<close>

theorem run_ticks_mass_opacity_unchanged:
  "map mass (run_ticks ords stars) = map mass stars
   \<and> map opacity (run_ticks ords stars) = map opacity stars
   \<and> length (run_ticks ords stars) = length stars"
  unfolding run_ticks_def
  by (induction ords arbitrary: stars) (simp_all add: launch_mass launch_opacity)

text \<open>
  C9. The escape velocity of line 40 is bound to a local variable that no later statement
  reads: a thread, and so a whole launch in any order, leaves the same array behind as
  the same code with that line removed.
\<close>

theorem escape_velocity_is_dead:
  "updateStars stars numStars dt i = updateStars_no_escape stars numStars dt i
   \<and> launch ord stars dt = launch_no_escape ord stars dt"
proof -
  have pair: "pair_update s dt i j = pair_update_no_escape s dt i j" for s i j
    by (simp add: pair_update_def pair_update_no_escape_def Let_def)
  have body: "(\<lambda>stars j. if k \<noteq> j then pair_update stars dt k j else stars) =
              (\<lambda>stars j. if k \<noteq> j then pair_update_no_escape stars dt k j else stars)" for k
    by (intro ext) (simp add: pair)
  have thread: "updateStars s n dt k = updateStars_no_escape s n dt k" for s n k
    by (simp add: updateStars_def updateStars_no_escape_def star_loop_def body)
  show ?thesis
    by (simp add: launch_def launch_no_escape_def thread)
qed

text \<open>
  C4. In an array of at least two stars every star has a partner, so each thread steps and
  clamps the brightness of its star at least once, and the clamp is the last statement to
  touch it: after a launch in any order, and after the double-buffered tick as well, the
  brightness of every star lies between 0.1 and 1, whatever it was before.
\<close>

theorem brightness_clamped_after_tick:
  assumes "2 \<le> length stars" "is_launch_order ord (length stars)" "i < length stars"
  shows "1 / 10 \<le> brightness (launch ord stars dt ! i)
       \<and> brightness (launch ord stars dt ! i) \<le> 1
       \<and> 1 / 10 \<le> brightness (tick_snapshot stars dt ! i)
       \<and> brightness (tick_snapshot stars dt ! i) \<le> 1"
proof -
  obtain pre post where sp: "ord = pre @ i # post" "i \<notin> set post"
    using launch_order_split [OF assms(2,3)] by blast
  have "launch ord stars dt ! i = updateStars (launch pre stars dt) (length stars) dt i ! i"
    using sp by (simp add: launch_at)
  moreover have "1 / 10 \<le> brightness (updateStars (launch pre stars dt) (length (launch pre stars dt)) dt i ! i)
       \<and> brightness (updateStars (launch pre stars dt) (length (launch pre stars dt)) dt i ! i) \<le> 1"
    by (rule updateStars_brightness) (use assms in simp_all)
  moreover have "tick_snapshot stars dt ! i = updateStars stars (length stars) dt i ! i"
    using assms(3) by (simp add: tick_snapshot_def)
  ultimately show ?thesis
    using updateStars_brightness [OF assms(3,1), of dt] by simp
qed

theorem brightness_clamped_after_tick_witness:
  "2 \<le> length drifting_pair \<and> is_launch_order [0..<512] (length drifting_pair)
   \<and> (1::nat) < length drifting_pair
   \<and> 1 / 10 \<le> brightness (launch [0..<512] drifting_pair global_dt ! 1)
   \<and> brightness (launch [0..<512] drifting_pair global_dt ! 1) \<le> 1
   \<and> 1 / 10 \<le> brightness (tick_snapshot drifting_pair global_dt ! 1)
   \<and> brightness (tick_snapshot drifting_pair global_dt ! 1) \<le> 1"
proof -
  have h1: "2 \<le> length drifting_pair" by (simp add: drifting_pair_def)
  have h2: "is_launch_order [0..<512] (length drifting_pair)"
    by (simp add: drifting_pair_def is_launch_order_def numBlocks_def numThreads_def)
  have h3: "1 < length drifting_pair" by (simp add: drifting_pair_def)
  show ?thesis
    using h1 h2 h3 brightness_clamped_after_tick [OF h1 h2 h3, of global_dt] by simp
qed

text \<open>
  C3. Thread \<open>i\<close> first adds to the velocity of star \<open>i\<close> the acceleration times \<open>dt\<close> for
  every partner \<open>j \<noteq> i\<close>, each acceleration computed from the array as the thread found
  it; while it does so the position of star \<open>i\<close> stays as it was. Only then it advances
  the position by the finished velocity times \<open>dt / 2\<close>.
\<close>

theorem velocity_then_half_step:
  assumes "i < length stars" "mass (stars ! i) \<noteq> 0"
  shows "vx (updateStars stars (length stars) dt i ! i)
           = vx (stars ! i) + (\<Sum>j\<in>{0..<length stars} - {i}. accel_x stars i j * dt)
       \<and> vy (updateStars stars (length stars) dt i ! i)
           = vy (stars ! i) + (\<Sum>j\<in>{0..<length stars} - {i}. accel_y stars i j * dt)
       \<and> x (updateStars stars (length stars) dt i ! i)
           = x (stars ! i) + vx (updateStars stars (length stars) dt i ! i) * dt / 2
       \<and> y (updateStars stars (length stars) dt i ! i)
           = y (stars ! i) + vy (updateStars stars (length stars) dt i ! i) * dt / 2
       \<and> x (star_loop stars (length stars) dt i ! i) = x (stars ! i)
       \<and> y (star_loop stars (length stars) dt i ! i) = y (stars ! i)
       \<and> vx (star_loop stars (length stars) dt i ! i)
           = vx (updateStars stars (length stars) dt i ! i)
       \<and> vy (star_loop stars (length stars) dt i ! i)
           = vy (updateStars stars (length stars) dt i ! i)"
  using assms(1) by (simp add: updateStars_slot star_loop_slot sum_partners)

theorem velocity_then_half_step_witness:
  "(1::nat) < length unit_gap \<and> mass (unit_gap ! 1) \<noteq> 0
   \<and> vx (updateStars unit_gap (length unit_gap) global_dt 1 ! 1)
       = vx (unit_gap ! 1) + (\<Sum>j\<in>{0..<length unit_gap} - {1}. accel_x unit_gap 1 j * global_dt)
   \<and> x (updateStars unit_gap (length unit_gap) global_dt 1 ! 1)
       = x (unit_gap ! 1) + vx (updateStars unit_gap (length unit_gap) global_dt 1 ! 1) * global_dt / 2
   \<and> x (star_loop unit_gap (length unit_gap) global_dt 1 ! 1) = 1"
proof -
  have h: "1 < length unit_gap" by (simp add: unit_gap_def)
  have m: "mass (unit_gap ! 1) \<noteq> 0" by (simp add: unit_gap_def)
  have "x (unit_gap ! 1) = 1" by (simp add: unit_gap_def)
  then show ?thesis
    using h m velocity_then_half_step [OF h m, of global_dt] by simp
qed

text \<open>
  C2, as the code has it. For partners \<open>i \<noteq> j\<close> the step adds to the velocity of star \<open>i\<close>
  the acceleration \<open>(G * m\<^sub>j * m\<^sub>i / d\<^sup>2) / m\<^sub>i\<close> times the offset over \<open>sqrt (d\<^sup>2)\<close>, times \<open>dt\<close>,
  in x and in y, where \<open>d\<^sup>2\<close> is the squared distance plus the softening 0.00001: the
  offset is divided by the root of the same softened square. The distance with the epsilon
  added after the root feeds the escape velocity only, so the step is the same without it.
\<close>

theorem pair_acceleration_root_of_softened_square:
  assumes "i < length stars" "j < length stars" "i \<noteq> j" "mass (stars ! i) \<noteq> 0"
  shows "vx (pair_update stars dt i j ! i)
           = vx (stars ! i)
             + (G * mass (stars ! j) * mass (stars ! i)
                  / ((x (stars ! j) - x (stars ! i)) * (x (stars ! j) - x (stars ! i))
                     + (y (stars ! j) - y (stars ! i)) * (y (stars ! j) - y (stars ! i))
                     + 1 / 100000))
               / mass (stars ! i)
               * ((x (stars ! j) - x (stars ! i))
                  / sqrt ((x (stars ! j) - x (stars ! i)) * (x (stars ! j) - x (stars ! i))
                     + (y (stars ! j) - y (stars ! i)) * (y (stars ! j) - y (stars ! i))
                     + 1 / 100000))
               * dt
       \<and> vy (pair_update stars dt i j ! i)
           = vy (stars ! i)
             + (G * mass (stars ! j) * mass (stars ! i)
                  / ((x (stars ! j) - x (stars ! i)) * (x (stars ! j) - x (stars ! i))
                     + (y (stars ! j) - y (stars ! i)) * (y (stars ! j) - y (stars ! i))
                     + 1 / 100000))
               / mass (stars ! i)
               * ((y (stars ! j) - y (stars ! i))
                  / sqrt ((x (stars ! j) - x (stars ! i)) * (x (stars ! j) - x (stars ! i))
                     + (y (stars ! j) - y (stars ! i)) * (y (stars ! j) - y (stars ! i))
                     + 1 / 100000))
               * dt
       \<and> pair_update stars dt i j = pair_update_no_escape stars dt i j"
proof -
  have same: "pair_update stars dt i j = pair_update_no_escape stars dt i j"
    by (simp add: pair_update_def pair_update_no_escape_def Let_def)
  have "vx (pair_update stars dt i j ! i) = vx (stars ! i) + accel_x stars i j * dt"
    and "vy (pair_update stars dt i j ! i) = vy (stars ! i) + accel_y stars i j * dt"
    using assms(1) by (simp_all add: pair_update_slot)
  then show ?thesis
    using same by (simp add: accel_x_def accel_y_def Let_def)
qed

theorem pair_acceleration_root_of_softened_square_witness:
  "(0::nat) < length unit_gap \<and> (1::nat) < length unit_gap \<and> (0::nat) \<noteq> 1
   \<and> mass (unit_gap ! 0) \<noteq> 0
   \<and> vx (pair_update unit_gap global_dt 0 1 ! 0)
        = 0 + (G * 1 * 1 / (1 * 1 + 0 * 0 + 1 / 100000)) / 1
              * (1 / sqrt (1 * 1 + 0 * 0 + 1 / 100000)) * global_dt
   \<and> vy (pair_update unit_gap global_dt 0 1 ! 0) = 0"
proof -
  have h0: "0 < length unit_gap" and h1: "1 < length unit_gap" and h2: "(0::nat) \<noteq> 1"
    and h3: "mass (unit_gap ! 0) \<noteq> 0"
    by (simp_all add: unit_gap_def)
  note t = pair_acceleration_root_of_softened_square [OF h0 h1 h2 h3, of global_dt]
  show ?thesis
    using t [THEN conjunct1] t [THEN conjunct2, THEN conjunct1]
    by (simp add: unit_gap_def)
qed

text \<open>
  C2, as the specification words it, fails: no epsilon added after the root, of whatever
  size, gives the velocity the code computes both for a partner one unit away and for a
  partner two units away.
\<close>

theorem post_root_epsilon_counterexample:
  "\<not> (\<exists>eps'. vx (pair_update unit_gap global_dt 0 1 ! 0)
                   = vx (unit_gap ! 0) + spec_accel_x eps' unit_gap 0 1 * global_dt
              \<and> vx (pair_update double_gap global_dt 0 1 ! 0)
                   = vx (double_gap ! 0) + spec_accel_x eps' double_gap 0 1 * global_dt)"
proof
  assume "\<exists>eps'. vx (pair_update unit_gap global_dt 0 1 ! 0)
                   = vx (unit_gap ! 0) + spec_accel_x eps' unit_gap 0 1 * global_dt
              \<and> vx (pair_update double_gap global_dt 0 1 ! 0)
                   = vx (double_gap ! 0) + spec_accel_x eps' double_gap 0 1 * global_dt"
  then obtain e where
    a: "vx (pair_update unit_gap global_dt 0 1 ! 0)
          = vx (unit_gap ! 0) + spec_accel_x e unit_gap 0 1 * global_dt"
    and b: "vx (pair_update double_gap global_dt 0 1 ! 0)
          = vx (double_gap ! 0) + spec_accel_x e double_gap 0 1 * global_dt"
    by blast
  have K: "G * global_dt \<noteq> 0" by (simp add: G_def global_dt_def)
  have "sqrt (100001 / 100000) = 1 + e"
    using a K
    by (simp add: pair_update_slot unit_gap_def accel_x_def spec_accel_x_def Let_def)
  then have sa: "(1 + e) * (1 + e) = 100001 / 100000"
    using sqrt_eq_square [of "100001 / 100000" "1 + e"] by simp
  have "sqrt (400001 / 100000) = 2 + e"
    using b K
    by (simp add: pair_update_slot double_gap_def accel_x_def spec_accel_x_def Let_def)
  then have sb: "(2 + e) * (2 + e) = 400001 / 100000"
    using sqrt_eq_square [of "400001 / 100000" "2 + e"] by simp
  from sa sb have "e = 0" by (simp add: algebra_simps)
  with sa show False by simp
qed

text \<open>
  C1, as the code has it. The threads share one array and there is no second buffer.
  When the threads of a launch run one after another, thread \<open>i\<close> computes its
  accelerations from the array as it stands when the thread starts: the stars whose
  threads ran before hold their final, advanced positions already, the others the
  positions of the tick's beginning. The slot of the thread that runs first, and the mass,
  opacity and brightness of every slot, are those of the double-buffered tick.
\<close>

theorem in_place_reads_advanced_positions:
  assumes "is_launch_order ord (length stars)" "ord = pre @ i # post" "i < length stars"
  shows "launch ord stars dt ! i = updateStars (launch pre stars dt) (length stars) dt i ! i
       \<and> (\<forall>k. launch pre stars dt ! k
                = (if k \<in> set pre then launch ord stars dt ! k else stars ! k))
       \<and> (pre = [] \<longrightarrow> launch ord stars dt ! i = tick_snapshot stars dt ! i)
       \<and> mass (launch ord stars dt ! i) = mass (tick_snapshot stars dt ! i)
       \<and> opacity (launch ord stars dt ! i) = opacity (tick_snapshot stars dt ! i)
       \<and> brightness (launch ord stars dt ! i) = brightness (tick_snapshot stars dt ! i)"
proof -
  have d: "distinct (pre @ i # post)"
    using assms(1,2) by (simp add: is_launch_order_def)
  then have post: "i \<notin> set post" by simp
  have at: "launch ord stars dt ! i = updateStars (launch pre stars dt) (length stars) dt i ! i"
    using post by (simp add: assms(2) launch_at)
  have seen: "launch pre stars dt ! k
                = (if k \<in> set pre then launch ord stars dt ! k else stars ! k)" for k
  proof (cases "k \<in> set pre")
    case True
    then have "k \<notin> set (i # post)" using d by auto
    then have "launch (i # post) (launch pre stars dt) dt ! k = launch pre stars dt ! k"
      by (rule launch_other)
    then show ?thesis using True by (simp add: assms(2) launch_append)
  next
    case False
    then show ?thesis by (simp add: launch_other)
  qed
  have first: "pre = [] \<longrightarrow> launch ord stars dt ! i = tick_snapshot stars dt ! i"
    using at assms(3) by (simp add: snapshot_nth)
  show ?thesis
    using at seen first launch_slot_fields [OF assms(1,3), of dt]
      snapshot_slot_fields [OF assms(3), of dt]
    by simp
qed

theorem in_place_reads_advanced_positions_witness:
  "is_launch_order (identity_order 2) (length drifting_pair)
   \<and> identity_order 2 = [0] @ Suc 0 # [2..<numBlocks 2 * numThreads]
   \<and> Suc 0 < length drifting_pair
   \<and> launch (identity_order 2) drifting_pair global_dt ! Suc 0
        = updateStars (launch [0] drifting_pair global_dt) (length drifting_pair)
            global_dt (Suc 0) ! Suc 0
   \<and> launch [0] drifting_pair global_dt ! 0
        = launch (identity_order 2) drifting_pair global_dt ! 0
   \<and> brightness (launch (identity_order 2) drifting_pair global_dt ! Suc 0)
        = brightness (tick_snapshot drifting_pair global_dt ! Suc 0)"
proof -
  have len: "length drifting_pair = 2" by (simp add: drifting_pair_def)
  have h1: "is_launch_order (identity_order 2) (length drifting_pair)"
    by (simp only: len launch_order_identity)
  have h3: "Suc 0 < length drifting_pair" by (simp add: len)
  note t = in_place_reads_advanced_positions [OF h1 identity_order_two h3, of global_dt]
  have "launch [0] drifting_pair global_dt ! 0
          = launch (identity_order 2) drifting_pair global_dt ! 0"
    using t [THEN conjunct2, THEN conjunct1, THEN spec, of 0] by simp
  then show ?thesis
    using h1 h3 identity_order_two t by blast
qed

text \<open>
  C1, as the specification words it, fails. Two stars of mass \<open>10\<^sup>13\<close> rest at \<open>(-1, 0)\<close>
  and \<open>(1, 0)\<close>. With the threads in rising order the first star has flown past the
  second before the second thread reads its position, so the second star is pulled to the
  right; in the double-buffered tick it is pulled to the left.
\<close>

theorem in_place_differs_from_snapshot:
  "is_launch_order (identity_order 2) (length heavy_pair)
   \<and> 0 < vx (launch (identity_order 2) heavy_pair global_dt ! 1)
   \<and> vx (tick_snapshot heavy_pair global_dt ! 1) < 0
   \<and> launch (identity_order 2) heavy_pair global_dt \<noteq> tick_snapshot heavy_pair global_dt"
proof -
  have len: "length heavy_pair = 2" by (simp add: heavy_pair_def)
  have o: "is_launch_order (identity_order 2) (length heavy_pair)"
    by (simp only: len launch_order_identity)
  have a: "0 < vx (launch (identity_order 2) heavy_pair global_dt ! 1)"
    and b: "vx (tick_snapshot heavy_pair global_dt ! 1) < 0"
    using heavy_in_place(2) heavy_snapshot by simp_all
  then have "launch (identity_order 2) heavy_pair global_dt
               \<noteq> tick_snapshot heavy_pair global_dt"
    by auto
  with o a b show ?thesis by blast
qed

text \<open>
  C7, as the code has it. A thread writes no slot but its own, and for any two orders of
  the threads the launches agree on the mass, opacity and brightness of every star. The
  double-buffered tick gives the same array in every order. For the positions and
  velocities of the launch on the shared array no such statement holds.
\<close>

theorem order_independent_fields:
  assumes "is_launch_order ord1 (length stars)" "is_launch_order ord2 (length stars)"
  shows "map mass (launch ord1 stars dt) = map mass (launch ord2 stars dt)
       \<and> map opacity (launch ord1 stars dt) = map opacity (launch ord2 stars dt)
       \<and> map brightness (launch ord1 stars dt) = map brightness (launch ord2 stars dt)
       \<and> launch_double_buffered ord1 stars dt = launch_double_buffered ord2 stars dt
       \<and> launch_double_buffered ord1 stars dt = tick_snapshot stars dt
       \<and> (\<forall>i k. k \<noteq> i \<longrightarrow> updateStars stars (length stars) dt i ! k = stars ! k)"
proof -
  have "map brightness (launch ord1 stars dt) = map brightness (launch ord2 stars dt)"
    by (rule nth_equalityI)
       (simp_all add: launch_slot_fields(1) [OF assms(1)] launch_slot_fields(1) [OF assms(2)])
  then show ?thesis
    by (simp add: launch_mass launch_opacity double_buffered_is_snapshot [OF assms(1)]
        double_buffered_is_snapshot [OF assms(2)] updateStars_other)
qed

theorem order_independent_fields_witness:
  "is_launch_order (identity_order 2) (length drifting_pair)
   \<and> is_launch_order (reverse_order 2) (length drifting_pair)
   \<and> map brightness (launch (identity_order 2) drifting_pair global_dt)
        = map brightness (launch (reverse_order 2) drifting_pair global_dt)
   \<and> launch_double_buffered (identity_order 2) drifting_pair global_dt
        = launch_double_buffered (reverse_order 2) drifting_pair global_dt"
proof -
  have len: "length drifting_pair = 2" by (simp add: drifting_pair_def)
  have h1: "is_launch_order (identity_order 2) (length drifting_pair)"
    by (simp only: len launch_order_identity)
  have h2: "is_launch_order (reverse_order 2) (length drifting_pair)"
    by (simp only: len launch_order_reverse)
  show ?thesis
    using h1 h2 order_independent_fields [OF h1 h2, of global_dt] by blast
qed

text \<open>
  C7, as the specification words it, fails. On the same two stars the launch in rising
  order leaves the second star moving to the right, the launch in falling order leaves it
  moving to the left.
\<close>

theorem thread_order_changes_output:
  "is_launch_order (identity_order 2) (length heavy_pair)
   \<and> is_launch_order (reverse_order 2) (length heavy_pair)
   \<and> 0 < vx (launch (identity_order 2) heavy_pair global_dt ! 1)
   \<and> vx (launch (reverse_order 2) heavy_pair global_dt ! 1) < 0
   \<and> launch (identity_order 2) heavy_pair global_dt
       \<noteq> launch (reverse_order 2) heavy_pair global_dt"
proof -
  have len: "length heavy_pair = 2" by (simp add: heavy_pair_def)
  have o: "is_launch_order (identity_order 2) (length heavy_pair)"
    "is_launch_order (reverse_order 2) (length heavy_pair)"
    by (simp_all only: len launch_order_identity launch_order_reverse)
  have a: "0 < vx (launch (identity_order 2) heavy_pair global_dt ! 1)"
    and b: "vx (launch (reverse_order 2) heavy_pair global_dt ! 1) < 0"
    using heavy_in_place(2) heavy_swapped by simp_all
  then have "launch (identity_order 2) heavy_pair global_dt
               \<noteq> launch (reverse_order 2) heavy_pair global_dt"
    by auto
  with o a b show ?thesis by blast
qed

text \<open>
  C5, as the code has it. Two stars of equal mass \<open>m\<close> rest at \<open>(-r, 0)\<close> and \<open>(r, 0)\<close>.
  When both units of work read the positions of the tick's beginning, as in the
  double-buffered tick, the stars end the tick with opposite horizontal velocities, each
  pointing at the other star, and no vertical velocity.
\<close>

theorem symmetric_pair_snapshot:
  assumes pair: "stars = [a, b]" and pos: "0 < r" "0 < m" "0 < dt"
    and place: "x a = - r" "y a = 0" "x b = r" "y b = 0"
    and weight: "mass a = m" "mass b = m"
    and rest: "vx a = 0" "vy a = 0" "vx b = 0" "vy b = 0"
  shows "vx (tick_snapshot stars dt ! 0) = - vx (tick_snapshot stars dt ! 1)
       \<and> vy (tick_snapshot stars dt ! 0) = 0
       \<and> vy (tick_snapshot stars dt ! 1) = 0
       \<and> 0 < vx (tick_snapshot stars dt ! 0)
       \<and> vx (tick_snapshot stars dt ! 1) < 0"
proof -
  have len: "length stars = 2" by (simp add: pair)
  have s0: "stars ! 0 = a" and s1: "stars ! Suc 0 = b" by (simp_all add: pair)
  have t0: "tick_snapshot stars dt ! 0 = updateStars stars 2 dt 0 ! 0"
    and t1: "tick_snapshot stars dt ! Suc 0 = updateStars stars 2 dt (Suc 0) ! Suc 0"
    using snapshot_nth [of 0 stars dt] snapshot_nth [of "Suc 0" stars dt]
    by (simp_all add: len)
  have opp: "accel_x stars 0 (Suc 0) = - accel_x stars (Suc 0) 0"
    by (simp add: accel_x_def Let_def s0 s1 place weight)
  have toward: "0 < accel_x stars 0 (Suc 0)"
    by (rule accel_x_pos) (use pos in \<open>simp_all add: s0 s1 place weight\<close>)
  have flat: "accel_y stars 0 (Suc 0) = 0" "accel_y stars (Suc 0) 0 = 0"
    by (rule accel_y_same_height, simp add: s0 s1 place)+
  have "vx (tick_snapshot stars dt ! 0) = accel_x stars 0 (Suc 0) * dt"
    and "vx (tick_snapshot stars dt ! 1) = - accel_x stars 0 (Suc 0) * dt"
    and "vy (tick_snapshot stars dt ! 0) = 0"
    and "vy (tick_snapshot stars dt ! 1) = 0"
    by (simp_all add: t0 t1 two_stars_thread0 [OF len] two_stars_thread1 [OF len] s0 s1
        rest opp flat)
  then show ?thesis using toward pos(3) by simp
qed

theorem symmetric_pair_snapshot_witness:
  "heavy_pair = [heavy_pair ! 0, heavy_pair ! 1] \<and> x (heavy_pair ! 0) = - 1
   \<and> x (heavy_pair ! 1) = 1 \<and> mass (heavy_pair ! 0) = mass (heavy_pair ! 1)
   \<and> vx (tick_snapshot heavy_pair global_dt ! 0) = - vx (tick_snapshot heavy_pair global_dt ! 1)
   \<and> vy (tick_snapshot heavy_pair global_dt ! 0) = 0
   \<and> vy (tick_snapshot heavy_pair global_dt ! 1) = 0
   \<and> 0 < vx (tick_snapshot heavy_pair global_dt ! 0)
   \<and> vx (tick_snapshot heavy_pair global_dt ! 1) < 0"
proof -
  have "vx (tick_snapshot heavy_pair global_dt ! 0)
          = - vx (tick_snapshot heavy_pair global_dt ! 1)
   \<and> vy (tick_snapshot heavy_pair global_dt ! 0) = 0
   \<and> vy (tick_snapshot heavy_pair global_dt ! 1) = 0
   \<and> 0 < vx (tick_snapshot heavy_pair global_dt ! 0)
   \<and> vx (tick_snapshot heavy_pair global_dt ! 1) < 0"
    by (rule symmetric_pair_snapshot [OF heavy_pair_def, where r = 1 and m = "10 ^ 13"])
       (simp_all add: global_dt_def)
  moreover have "heavy_pair = [heavy_pair ! 0, heavy_pair ! 1] \<and> x (heavy_pair ! 0) = - 1
   \<and> x (heavy_pair ! 1) = 1 \<and> mass (heavy_pair ! 0) = mass (heavy_pair ! 1)"
    by (simp add: heavy_pair_def)
  ultimately show ?thesis by blast
qed

text \<open>
  C5, as the specification words it, fails on the shared array. With the threads in
  rising order both stars end the tick moving to the right, so their velocities are not
  opposite.
\<close>

theorem in_place_breaks_symmetry:
  "is_launch_order (identity_order 2) (length heavy_pair)
   \<and> 0 < vx (launch (identity_order 2) heavy_pair global_dt ! 0)
   \<and> 0 < vx (launch (identity_order 2) heavy_pair global_dt ! 1)
   \<and> vx (launch (identity_order 2) heavy_pair global_dt ! 0)
       \<noteq> - vx (launch (identity_order 2) heavy_pair global_dt ! 1)"
proof -
  have len: "length heavy_pair = 2" by (simp add: heavy_pair_def)
  have o: "is_launch_order (identity_order 2) (length heavy_pair)"
    by (simp only: len launch_order_identity)
  have a: "0 < vx (launch (identity_order 2) heavy_pair global_dt ! 0)"
    and b: "0 < vx (launch (identity_order 2) heavy_pair global_dt ! 1)"
    using heavy_in_place by simp_all
  then have "vx (launch (identity_order 2) heavy_pair global_dt ! 0)
               \<noteq> - vx (launch (identity_order 2) heavy_pair global_dt ! 1)"
    by linarith
  with o a b show ?thesis by blast
qed

text \<open>
  C8, as the code has it. Star 0 is placed at the centre of the screen, (450, 450), at
  rest, with the central mass. Every other star \<open>i\<close> whose sampled radius \<open>r\<close> is not
  zero is placed at distance \<open>r\<close> from the centre in the direction of its sampled angle,
  with the velocity \<open>(- v * sin angle, v * cos angle)\<close> for
  \<open>v = sqrt (G * CENTRAL_MASS / r)\<close>: its speed is \<open>v\<close> and its velocity is perpendicular
  to its radius vector.
\<close>

theorem circular_orbit_velocity:
  assumes "1 \<le> i" "i < numStars" "length raw = numStars"
    and "sampled_radius R draws i \<noteq> 0"
  shows "(\<exists>s. fst (create_stars R draws raw numStars) ! i = Finite s
          \<and> x s = real_of_int (SCREEN_WIDTH div 2)
                  + sampled_radius R draws i * cos (sampled_angle R draws i)
          \<and> y s = real_of_int (SCREEN_HEIGHT div 2)
                  + sampled_radius R draws i * sin (sampled_angle R draws i)
          \<and> vx s = - sqrt (G * CENTRAL_MASS / sampled_radius R draws i)
                     * sin (sampled_angle R draws i)
          \<and> vy s = sqrt (G * CENTRAL_MASS / sampled_radius R draws i)
                     * cos (sampled_angle R draws i)
          \<and> sqrt ((vx s)\<^sup>2 + (vy s)\<^sup>2) = sqrt (G * CENTRAL_MASS / sampled_radius R draws i)
          \<and> (x s - real_of_int (SCREEN_WIDTH div 2)) * vx s
              + (y s - real_of_int (SCREEN_HEIGHT div 2)) * vy s = 0)
       \<and> (\<exists>c. fst (create_stars R draws raw numStars) ! 0 = Finite c
          \<and> x c = real_of_int (SCREEN_WIDTH div 2) \<and> y c = real_of_int (SCREEN_HEIGHT div 2)
          \<and> vx c = 0 \<and> vy c = 0 \<and> mass c = CENTRAL_MASS)"
proof -
  obtain s where s: "fst (create_stars R draws raw numStars) ! i = Finite s"
    "x s = real_of_int (SCREEN_WIDTH div 2)
             + sampled_radius R draws i * cos (sampled_angle R draws i)"
    "y s = real_of_int (SCREEN_HEIGHT div 2)
             + sampled_radius R draws i * sin (sampled_angle R draws i)"
    "vx s = - sqrt (G * CENTRAL_MASS / sampled_radius R draws i)
                * sin (sampled_angle R draws i)"
    "vy s = sqrt (G * CENTRAL_MASS / sampled_radius R draws i)
                * cos (sampled_angle R draws i)"
    using created_star [OF assms] by blast
  have "sqrt ((vx s)\<^sup>2 + (vy s)\<^sup>2) = sqrt (G * CENTRAL_MASS / sampled_radius R draws i)"
    unfolding s(4,5) by (rule tangential_magnitude) (simp add: orbit_speed_nonneg)
  moreover have "(x s - real_of_int (SCREEN_WIDTH div 2)) * vx s
                   + (y s - real_of_int (SCREEN_HEIGHT div 2)) * vy s = 0"
    unfolding s(2-5) by (rule tangential_perpendicular)
  moreover have "\<exists>c. fst (create_stars R draws raw numStars) ! 0 = Finite c
          \<and> x c = real_of_int (SCREEN_WIDTH div 2) \<and> y c = real_of_int (SCREEN_HEIGHT div 2)
          \<and> vx c = 0 \<and> vy c = 0 \<and> mass c = CENTRAL_MASS"
    using assms(1-3) by (simp add: create_stars_centre)
  ultimately show ?thesis using s by blast
qed

theorem circular_orbit_velocity_witness:
  "(1::nat) \<le> 1 \<and> (1::nat) < 2 \<and> length drifting_pair = 2
   \<and> sampled_radius glibc_RAND_MAX (\<lambda>k. 1) 1 \<noteq> 0
   \<and> (\<exists>s. fst (create_stars glibc_RAND_MAX (\<lambda>k. 1) drifting_pair 2) ! 1 = Finite s
        \<and> vx s = - sqrt (G * CENTRAL_MASS / sampled_radius glibc_RAND_MAX (\<lambda>k. 1) 1)
                   * sin (sampled_angle glibc_RAND_MAX (\<lambda>k. 1) 1)
        \<and> sqrt ((vx s)\<^sup>2 + (vy s)\<^sup>2)
            = sqrt (G * CENTRAL_MASS / sampled_radius glibc_RAND_MAX (\<lambda>k. 1) 1))
   \<and> (\<exists>c. fst (create_stars glibc_RAND_MAX (\<lambda>k. 1) drifting_pair 2) ! 0 = Finite c
        \<and> x c = 450 \<and> y c = 450 \<and> vx c = 0 \<and> vy c = 0)"
proof -
  have h1: "(1::nat) \<le> 1" and h2: "(1::nat) < 2" by simp_all
  have h3: "length drifting_pair = 2" by (simp add: drifting_pair_def)
  have h4: "sampled_radius glibc_RAND_MAX (\<lambda>k. 1) 1 \<noteq> 0"
    by (simp add: sampled_radius_def glibc_RAND_MAX_def SCREEN_WIDTH_def)
  have c: "real_of_int (SCREEN_WIDTH div 2) = 450" "real_of_int (SCREEN_HEIGHT div 2) = 450"
    by (simp_all add: SCREEN_WIDTH_def SCREEN_HEIGHT_def)
  show ?thesis
    using h1 h2 h3 h4 circular_orbit_velocity [OF h1 h2 h3 h4] unfolding c by blast
qed

text \<open>
  C8, as the specification words it, for every star but the central one, fails. Nothing
  keeps the sampled radius away from zero: when \<^verbatim>\<open>rand()\<close> returns 0 for the radius
  of star 1, the radius is 0, line 80 divides by it, and the slot holds no star with a
  finite velocity, let alone one of the circular-orbit speed.
\<close>

theorem zero_radius_has_no_orbit_speed:
  "(1::nat) \<le> 1 \<and> (1::nat) < 2 \<and> length drifting_pair = 2
   \<and> sampled_radius glibc_RAND_MAX (\<lambda>k. 0) 1 = 0
   \<and> fst (create_stars glibc_RAND_MAX (\<lambda>k. 0) drifting_pair 2) ! 1 = NonFinite
   \<and> \<not> (\<exists>s. fst (create_stars glibc_RAND_MAX (\<lambda>k. 0) drifting_pair 2) ! 1 = Finite s
             \<and> vx s = - sqrt (G * CENTRAL_MASS / sampled_radius glibc_RAND_MAX (\<lambda>k. 0) 1)
                        * sin (sampled_angle glibc_RAND_MAX (\<lambda>k. 0) 1)
             \<and> vy s = sqrt (G * CENTRAL_MASS / sampled_radius glibc_RAND_MAX (\<lambda>k. 0) 1)
                        * cos (sampled_angle glibc_RAND_MAX (\<lambda>k. 0) 1)
             \<and> sqrt ((vx s)\<^sup>2 + (vy s)\<^sup>2)
                 = sqrt (G * CENTRAL_MASS / sampled_radius glibc_RAND_MAX (\<lambda>k. 0) 1))"
proof -
  have len: "length drifting_pair = 2" by (simp add: drifting_pair_def)
  have r: "sampled_radius glibc_RAND_MAX (\<lambda>k. 0) 1 = 0"
    by (simp add: sampled_radius_def)
  have "fst (create_stars glibc_RAND_MAX (\<lambda>k. 0) drifting_pair 2) ! 1
          = create_slot glibc_RAND_MAX (\<lambda>k. 0) (4 * (1 - 1)) (Finite (drifting_pair ! 1))"
    by (rule create_stars_slot) (simp_all add: len)
  then have n: "fst (create_stars glibc_RAND_MAX (\<lambda>k. 0) drifting_pair 2) ! 1 = NonFinite"
    by (simp add: create_slot_zero_radius)
  show ?thesis using len r n by simp
qed

text \<open>
  C10. Creating the stars takes exactly four draws per star, whatever the draws are:
  nothing is drawn again. When the draw for the radius of star \<open>i\<close> is 0, the radius is
  0, line 80 divides by it, and the slot of star \<open>i\<close> holds a velocity that is not a
  finite number. When the radius is positive but at most \<open>G * CENTRAL_MASS / B\<^sup>2\<close>, the
  star is stored with a speed of at least \<open>B\<close>.
\<close>

theorem zero_radius_unguarded:
  assumes "1 \<le> i" "i < numStars" "length raw = numStars"
  shows "snd (create_stars R draws raw numStars) = 4 * (numStars - 1)
       \<and> (draws (4 * (i - 1)) = 0 \<longrightarrow>
            sampled_radius R draws i = 0
            \<and> fst (create_stars R draws raw numStars) ! i = NonFinite)
       \<and> (\<forall>B. 0 < B \<and> 0 < sampled_radius R draws i
                \<and> sampled_radius R draws i \<le> G * CENTRAL_MASS / B\<^sup>2 \<longrightarrow>
            (\<exists>s. fst (create_stars R draws raw numStars) ! i = Finite s
                 \<and> B \<le> sqrt ((vx s)\<^sup>2 + (vy s)\<^sup>2)))"
proof -
  have n: "1 \<le> numStars" "numStars \<le> length raw" using assms by simp_all
  have slot: "fst (create_stars R draws raw numStars) ! i
                = create_slot R draws (4 * (i - 1)) (Finite (raw ! i))"
    using assms by (simp add: create_stars_slot)
  have zero: "sampled_radius R draws i = 0
              \<and> fst (create_stars R draws raw numStars) ! i = NonFinite"
    if "draws (4 * (i - 1)) = 0"
    using that by (simp add: slot create_slot_zero_radius sampled_radius_def)
  have near: "\<exists>s. fst (create_stars R draws raw numStars) ! i = Finite s
                 \<and> B \<le> sqrt ((vx s)\<^sup>2 + (vy s)\<^sup>2)"
    if B: "0 < B" and r: "0 < sampled_radius R draws i"
      and small: "sampled_radius R draws i \<le> G * CENTRAL_MASS / B\<^sup>2" for B
  proof -
    let ?r = "sampled_radius R draws i"
    obtain s where s: "fst (create_stars R draws raw numStars) ! i = Finite s"
      "vx s = - sqrt (G * CENTRAL_MASS / ?r) * sin (sampled_angle R draws i)"
      "vy s = sqrt (G * CENTRAL_MASS / ?r) * cos (sampled_angle R draws i)"
      using created_star [OF assms, of R draws] r by auto
    have mag: "sqrt ((vx s)\<^sup>2 + (vy s)\<^sup>2) = sqrt (G * CENTRAL_MASS / ?r)"
      unfolding s(2,3) by (rule tangential_magnitude) (simp add: orbit_speed_nonneg)
    have "?r * B\<^sup>2 \<le> G * CENTRAL_MASS"
      using small B by (simp add: pos_le_divide_eq)
    then have "B\<^sup>2 \<le> G * CENTRAL_MASS / ?r"
      using r by (simp add: pos_le_divide_eq mult.commute)
    then have "sqrt (B\<^sup>2) \<le> sqrt (G * CENTRAL_MASS / ?r)"
      by (rule real_sqrt_le_mono)
    then have "B \<le> sqrt (G * CENTRAL_MASS / ?r)" using B by simp
    then show ?thesis using s(1) mag by auto
  qed
  show ?thesis
    using create_stars_draws [OF n, of R draws] zero near by blast
qed

theorem zero_radius_unguarded_witness:
  "(1::nat) \<le> 1 \<and> (1::nat) < 2 \<and> length drifting_pair = 2
   \<and> snd (create_stars glibc_RAND_MAX (\<lambda>k. 0) drifting_pair 2) = 4
   \<and> sampled_radius glibc_RAND_MAX (\<lambda>k. 0) 1 = 0
   \<and> fst (create_stars glibc_RAND_MAX (\<lambda>k. 0) drifting_pair 2) ! 1 = NonFinite
   \<and> 0 < sampled_radius glibc_RAND_MAX (\<lambda>k. 1) 1
   \<and> sampled_radius glibc_RAND_MAX (\<lambda>k. 1) 1 \<le> G * CENTRAL_MASS / 100000\<^sup>2
   \<and> (\<exists>s. fst (create_stars glibc_RAND_MAX (\<lambda>k. 1) drifting_pair 2) ! 1 = Finite s
         \<and> 100000 \<le> sqrt ((vx s)\<^sup>2 + (vy s)\<^sup>2))"
proof -
  have h1: "(1::nat) \<le> 1" and h2: "(1::nat) < 2" by simp_all
  have h3: "length drifting_pair = 2" by (simp add: drifting_pair_def)
  note z = zero_radius_unguarded [OF h1 h2 h3, of glibc_RAND_MAX "\<lambda>k. 0"]
  note p = zero_radius_unguarded [OF h1 h2 h3, of glibc_RAND_MAX "\<lambda>k. 1"]
  have r: "0 < sampled_radius glibc_RAND_MAX (\<lambda>k. 1) 1"
    "sampled_radius glibc_RAND_MAX (\<lambda>k. 1) 1 \<le> G * CENTRAL_MASS / 100000\<^sup>2"
    by (simp_all add: sampled_radius_def glibc_RAND_MAX_def SCREEN_WIDTH_def G_def
        CENTRAL_MASS_def)
  have "\<exists>s. fst (create_stars glibc_RAND_MAX (\<lambda>k. 1) drifting_pair 2) ! 1 = Finite s
         \<and> 100000 \<le> sqrt ((vx s)\<^sup>2 + (vy s)\<^sup>2)"
    using p [THEN conjunct2, THEN conjunct2, THEN spec, of 100000] r by simp
  moreover have "snd (create_stars glibc_RAND_MAX (\<lambda>k. 0) drifting_pair 2) = 4"
    using z by simp
  moreover have "sampled_radius glibc_RAND_MAX (\<lambda>k. 0) 1 = 0
     \<and> fst (create_stars glibc_RAND_MAX (\<lambda>k. 0) drifting_pair 2) ! 1 = NonFinite"
    using z by simp
  ultimately show ?thesis using h1 h2 h3 r by blast
qed

end
